theory Spec2Isabelle
  imports Complex_Main "HOL-Library.Sublist"
begin

section \<open>Locator resilience: mining, validation, config update, drift monitoring\<close>

text \<open>
  A shallow embedding of the selector miner (\<open>findBestSelector\<close>, \<open>mineCellSelector\<close>,
  \<open>mineSelectors\<close>, \<open>validateSelectors\<close>, \<open>updateSelectors\<close> and the request handler of
  \<open>main\<close>), of step 1 of the scraper's \<open>scrapeCurrentPage\<close> and of the monitor's
  \<open>handleSelectorFailures\<close> and the counters of \<open>generateReport\<close>.

  The browser is an external collaborator. A document is described by the answers it
  gives to the queries the code makes: an element carries the attributes the code reads,
  the class lists of its parent's other children, its parent, and a function from a
  selector text to the descendants matching it. A wait that is not satisfied by the
  document is the timeout it would end in. A call of a method that the receiver does not
  have is the \<open>TypeError\<close> it raises, and a query with a selector text that the engine
  cannot parse throws; the selector texts written in the code and in the configuration
  are taken to parse, a generated one may not.
\<close>

subsection \<open>Strings\<close>

definition dq :: string where
  "dq = [CHR 0x22]"

definition sq :: string where
  "sq = [CHR 0x27]"

text \<open>JavaScript truthiness of a \<open>string | null | undefined\<close> value.\<close>

definition truthy :: "string option \<Rightarrow> bool" where
  "truthy s = (case s of None \<Rightarrow> False | Some t \<Rightarrow> t \<noteq> [])"

text \<open>\<open>c.startsWith('zp_')\<close>\<close>

definition startsWithZp :: "string \<Rightarrow> bool" where
  "startsWithZp c = prefix ''zp_'' c"

text \<open>\<open>Array.prototype.join('.')\<close>\<close>

fun joinDot :: "string list \<Rightarrow> string" where
  "joinDot [] = []"
| "joinDot [c] = c"
| "joinDot (c # d # cs) = c @ ''.'' @ joinDot (d # cs)"

subsection \<open>Elements and pages\<close>

datatype element = Element
  (tagName: string)
  (testid: "string option")
  (elemId: string)
  (classList: "string list")
  (role: "string option")
  (siblingClassLists: "string list list")
  (parentElement: "element option")
  (isVisible: bool)
  (textContent: "string option")
  (query: "string \<Rightarrow> element list")

text \<open>
  \<open>tagName\<close> is the lower-cased tag name, \<open>testid\<close> is \<open>dataset.testid\<close>, \<open>role\<close> is
  \<open>getAttribute('role')\<close>, \<open>siblingClassLists\<close> are the class lists of the children of the
  parent other than the element itself (empty when there is no parent), \<open>query e s\<close> is
  \<open>e.$$(s)\<close>, and \<open>e.$(s)\<close> is its first element.
\<close>

definition dollar :: "element \<Rightarrow> string \<Rightarrow> element option" where
  "dollar e s = (case query e s of [] \<Rightarrow> None | x # _ \<Rightarrow> Some x)"

text \<open>
  \<open>locator pg s\<close> are the elements of the document that match \<open>s\<close>, and \<open>malformed pg s\<close>
  says that \<open>s\<close> does not parse, so that \<open>page.locator(s).count()\<close> throws.
\<close>

record page =
  locator :: "string \<Rightarrow> element list"
  malformed :: "string \<Rightarrow> bool"

text \<open>
  The two kinds of object the miner holds for an element: the \<open>ElementHandle\<close> that
  \<open>$\<close> and \<open>$$\<close> return, and the \<open>Locator\<close> that \<open>page.locator\<close>, \<open>first()\<close> and \<open>all()\<close>
  return. A \<open>Locator\<close> has no \<open>$\<close> and no \<open>$$\<close>: calling either raises a \<open>TypeError\<close>.
\<close>

datatype error = TimeoutError | TypeError | ReferenceError | InvalidOperationError

datatype handle = ElementHandle element | Locator element

fun handleDollar :: "handle \<Rightarrow> string \<Rightarrow> error + element option" where
  "handleDollar (ElementHandle e) s = Inr (dollar e s)"
| "handleDollar (Locator e) s = Inl TypeError"

fun handleDollarDollar :: "handle \<Rightarrow> string \<Rightarrow> error + element list" where
  "handleDollarDollar (ElementHandle e) s = Inr (query e s)"
| "handleDollarDollar (Locator e) s = Inl TypeError"

subsection \<open>LocatorGenerator: \<open>findBestSelector\<close>\<close>

definition priority3 :: "element \<Rightarrow> string option" where
  "priority3 el =
    (let classes = classList el;
         zpClasses = filter (\<lambda>c. startsWithZp c \<and> length c > 6) classes
     in if zpClasses \<noteq> [] then
          (let primaryClass = hd (sort_key (\<lambda>c. - int (length c)) zpClasses);
               tag = tagName el;
               sameClassCount = length (filter (\<lambda>sib. primaryClass \<in> set sib) (siblingClassLists el))
           in if sameClassCount = 0 then Some (tag @ ''.'' @ primaryClass)
              else (case find (\<lambda>c. startsWithZp c \<and> c \<noteq> primaryClass) classes of
                      Some secondaryClass \<Rightarrow> Some (tag @ ''.'' @ primaryClass @ ''.'' @ secondaryClass)
                    | None \<Rightarrow> None))
        else None)"

definition priority4 :: "element \<Rightarrow> string option" where
  "priority4 el =
    (case role el of
       None \<Rightarrow> None
     | Some r \<Rightarrow>
         if r = [] then None
         else (let classes = joinDot (filter startsWithZp (classList el))
               in if classes \<noteq> [] then
                    Some (tagName el @ ''[role='' @ dq @ r @ dq @ ''].'' @ classes)
                  else None))"

definition generateSelector :: "element \<Rightarrow> string option" where
  "generateSelector el =
    (if truthy (testid el) then
       Some (tagName el @ ''[data-testid='' @ dq @ the (testid el) @ dq @ '']'')
     else if elemId el \<noteq> [] \<and> CHR '':'' \<notin> set (elemId el) then
       Some (''#'' @ elemId el)
     else (case priority3 el of
             Some s \<Rightarrow> Some s
           | None \<Rightarrow> priority4 el))"

text \<open>
  The loop \<open>for (let i = 0; i < 3 && currentEl; i++)\<close>: \<open>i\<close> counts the elements tried,
  \<open>currentEl\<close> is \<open>None\<close> once the chain of parents has ended.
\<close>

function ancestorLoop :: "nat \<Rightarrow> element option \<Rightarrow> string option" where
  "ancestorLoop i currentEl =
    (if i < 3 then
       (case currentEl of
          None \<Rightarrow> None
        | Some el \<Rightarrow>
            (case generateSelector el of
               Some selector \<Rightarrow> Some selector
             | None \<Rightarrow> ancestorLoop (i + 1) (parentElement el)))
     else None)"
  by pat_completeness auto
termination
  by (relation "measure (\<lambda>(i, _). 3 - i)") auto

declare ancestorLoop.simps [simp del]

definition findBestSelector :: "element \<Rightarrow> string option" where
  "findBestSelector el = ancestorLoop 0 (Some el)"

subsection \<open>The mined mapping\<close>

text \<open>
  \<open>MinedSelectors\<close> is an object whose values are \<open>string | null\<close>. It is kept as the
  list of its entries in insertion order, which is the order of \<open>Object.keys\<close> and
  \<open>Object.entries\<close>; assigning to a key that is already present keeps its position.
\<close>

type_synonym minedSelectors = "(string \<times> string option) list"

fun setProp :: "string \<Rightarrow> 'v \<Rightarrow> (string \<times> 'v) list \<Rightarrow> (string \<times> 'v) list" where
  "setProp k v [] = [(k, v)]"
| "setProp k v ((k', v') # kvs) =
     (if k' = k then (k, v) # kvs else (k', v') # setProp k v kvs)"

text \<open>Reading a property: \<open>undefined\<close> and \<open>null\<close> are both \<open>None\<close>.\<close>

definition getProp :: "minedSelectors \<Rightarrow> string \<Rightarrow> string option" where
  "getProp mined k = (case map_of mined k of None \<Rightarrow> None | Some v \<Rightarrow> v)"

subsection \<open>Selector texts used by the miner\<close>

definition tableReadySel :: string where
  "tableReadySel = ''div[role='' @ dq @ ''row'' @ dq @ ''][aria-rowindex='' @ dq @ ''1'' @ dq @ '']''"

definition minerCellSel :: string where
  "minerCellSel = ''[role='' @ dq @ ''cell'' @ dq @ '']''"

definition nameAnchorSel :: string where
  "nameAnchorSel = ''a[href*='' @ dq @ ''/contacts/'' @ dq @ '']''"

definition linkedInSel :: string where
  "linkedInSel = ''a[href*='' @ dq @ ''linkedin.com/in'' @ dq @ '']''"

definition emailSpanSel :: string where
  "emailSpanSel = ''span.zp_CaeaN.zp_JTaUA''"

definition accessBtnSel :: string where
  "accessBtnSel = ''button:has-text('' @ dq @ ''Access'' @ dq @ '')''"

definition requestLinkSel :: string where
  "requestLinkSel = ''a:has-text('' @ dq @ ''Request'' @ dq @ '')''"

definition phoneSpanSel :: string where
  "phoneSpanSel = ''span.zp_CaeaN''"

definition interactiveSel :: string where
  "interactiveSel = ''a, button, span.zp_CaeaN, [data-testid]''"

subsection \<open>FieldMiner: \<open>mineCellSelector\<close> and \<open>mineSelectors\<close>\<close>

text \<open>
  The loop of \<open>mineCellSelector\<close>. \<open>count()\<close> on a selector that does not parse throws
  into the \<open>catch\<close> of the function, which returns \<open>null\<close>.
\<close>

fun firstWorkingSelector :: "page \<Rightarrow> element list \<Rightarrow> string option" where
  "firstWorkingSelector pg [] = None"
| "firstWorkingSelector pg (el # els) =
     (if \<not> isVisible el then firstWorkingSelector pg els
      else (case findBestSelector el of
              Some selector \<Rightarrow>
                if malformed pg selector then None
                else if length (locator pg selector) > 0 then Some selector
                else firstWorkingSelector pg els
            | None \<Rightarrow> firstWorkingSelector pg els))"

text \<open>\<open>cell.$$\<close> is inside the \<open>try\<close>: when it raises, the function returns \<open>null\<close>.\<close>

definition mineCellSelector :: "page \<Rightarrow> handle \<Rightarrow> string option" where
  "mineCellSelector pg cell =
    (case handleDollarDollar cell interactiveSel of
       Inl e \<Rightarrow> None
     | Inr elements \<Rightarrow> firstWorkingSelector pg elements)"

text \<open>The row-discovery loop of \<open>mineSelectors\<close>: the selector taken and \<open>rows.first()\<close>.\<close>

fun findRowLocator :: "page \<Rightarrow> string list \<Rightarrow> (string \<times> element) option" where
  "findRowLocator pg [] = None"
| "findRowLocator pg (rowSelector # rest) =
     (case locator pg rowSelector of
        [] \<Rightarrow> findRowLocator pg rest
      | r # _ \<Rightarrow> Some (rowSelector, r))"

text \<open>\<open>classes.find(c => c.startsWith('zp_') && c.length > 10) || null\<close>\<close>

definition mineRowClass :: "element \<Rightarrow> string option" where
  "mineRowClass el = find (\<lambda>c. startsWithZp c \<and> length c > 10) (classList el)"

text \<open>The template \<open>div.${rowClass}\<close>\<close>

definition rowClassSelector :: "string \<Rightarrow> string" where
  "rowClassSelector rowClass = ''div.'' @ rowClass"

text \<open>\<open>text.match(/\+\d+/)\<close>: a plus sign directly followed by a digit.\<close>

definition isDigit :: "char \<Rightarrow> bool" where
  "isDigit c = (c \<in> set ''0123456789'')"

fun matchesPlusDigits :: "string \<Rightarrow> bool" where
  "matchesPlusDigits (c # d # cs) =
     ((c = CHR ''+'' \<and> isDigit d) \<or> matchesPlusDigits (d # cs))"
| "matchesPlusDigits _ = False"

definition cellMapping :: "(nat \<times> string) list" where
  "cellMapping =
     [(1, ''name''), (2, ''jobTitle''), (3, ''companyName''), (4, ''email''),
      (5, ''phoneRequestLink''), (7, ''linkedIn''), (9, ''location''),
      (10, ''employeeCount''), (12, ''nicheTags'')]"

text \<open>
  The cases of the \<open>switch\<close>. Each begins with \<open>cell.$\<close>; what it raises leaves the case.
  \<open>nameAnchor\<close> is an \<open>ElementHandle\<close>, on which \<open>$\<close> is defined.
\<close>

definition mineName :: "handle \<Rightarrow> error + string option" where
  "mineName cell =
    (case handleDollar cell nameAnchorSel of
       Inl e \<Rightarrow> Inl e
     | Inr found \<Rightarrow>
         (case found of
            None \<Rightarrow> Inr None
          | Some nameAnchor \<Rightarrow>
              (case findBestSelector nameAnchor of
                 None \<Rightarrow> Inr None
               | Some selector \<Rightarrow>
                   (case dollar nameAnchor ''span'' of
                      None \<Rightarrow> Inr (Some selector)
                    | Some innerSpan \<Rightarrow>
                        (case findBestSelector innerSpan of
                           None \<Rightarrow> Inr (Some selector)
                         | Some spanSelector \<Rightarrow>
                             Inr (Some (selector @ '' '' @ spanSelector)))))))"

definition mineLinkedIn :: "handle \<Rightarrow> error + string option" where
  "mineLinkedIn cell =
    (case handleDollar cell linkedInSel of
       Inl e \<Rightarrow> Inl e
     | Inr found \<Rightarrow>
         (case found of
            None \<Rightarrow> Inr None
          | Some linkedInLink \<Rightarrow> Inr (Some linkedInSel)))"

text \<open>The cases that also write to \<open>mined\<close> return the local \<open>selector\<close> and the new \<open>mined\<close>.\<close>

definition mineEmail ::
  "handle \<Rightarrow> minedSelectors \<Rightarrow> error + (string option \<times> minedSelectors)" where
  "mineEmail cell mined =
    (case handleDollar cell emailSpanSel of
       Inl e \<Rightarrow> Inl e
     | Inr foundSpan \<Rightarrow>
         (let selector = (case foundSpan of
                            None \<Rightarrow> None
                          | Some emailSpan \<Rightarrow> findBestSelector emailSpan)
          in (case handleDollar cell accessBtnSel of
                Inl e \<Rightarrow> Inl e
              | Inr foundBtn \<Rightarrow>
                  (case foundBtn of
                     None \<Rightarrow> Inr (selector, mined)
                   | Some accessBtn \<Rightarrow>
                       Inr (selector,
                            setProp ''emailRequiresAccess'' (Some accessBtnSel) mined)))))"

definition minePhone ::
  "handle \<Rightarrow> minedSelectors \<Rightarrow> error + (string option \<times> minedSelectors)" where
  "minePhone cell mined =
    (case handleDollar cell requestLinkSel of
       Inl e \<Rightarrow> Inl e
     | Inr foundLink \<Rightarrow>
         (case foundLink of
            Some requestLink \<Rightarrow> Inr (findBestSelector requestLink, mined)
          | None \<Rightarrow>
              (case handleDollar cell phoneSpanSel of
                 Inl e \<Rightarrow> Inl e
               | Inr foundSpan \<Rightarrow>
                   (case foundSpan of
                      None \<Rightarrow> Inr (None, mined)
                    | Some phoneSpan \<Rightarrow>
                        if truthy (textContent phoneSpan)
                           \<and> matchesPlusDigits (the (textContent phoneSpan)) then
                          (let selector = findBestSelector phoneSpan
                           in Inr (selector, setProp ''phoneVisible'' selector mined))
                        else Inr (None, mined)))))"

text \<open>
  One turn of the loop over \<open>cellMapping\<close>. What the case raises is caught by the \<open>catch\<close>
  of the turn, which logs and leaves \<open>mined\<close> as it is.
\<close>

definition mineCell ::
  "page \<Rightarrow> handle list \<Rightarrow> minedSelectors \<Rightarrow> nat \<times> string \<Rightarrow> minedSelectors" where
  "mineCell pg cells mined mapping =
    (let cellIndex = fst mapping; cellType = snd mapping
     in if cellIndex < length cells then
          (let cell = cells ! cellIndex
           in (case (if cellType = ''name'' then
                       (case mineName cell of
                          Inl e \<Rightarrow> Inl e
                        | Inr selector \<Rightarrow> Inr (selector, mined))
                     else if cellType = ''linkedIn'' then
                       (case mineLinkedIn cell of
                          Inl e \<Rightarrow> Inl e
                        | Inr selector \<Rightarrow> Inr (selector, mined))
                     else if cellType = ''email'' then mineEmail cell mined
                     else if cellType = ''phoneRequestLink'' then minePhone cell mined
                     else Inr (mineCellSelector pg cell, mined)) of
                 Inl e \<Rightarrow> mined
               | Inr (selector, mined') \<Rightarrow>
                   if truthy selector then setProp cellType selector mined' else mined'))
        else mined)"

text \<open>
  \<open>waitForSelector\<close> and \<open>waitFor({state: 'visible'})\<close> on a fixed document: satisfied when
  the first match is there and visible, a timeout otherwise.
\<close>

definition firstVisible :: "element list \<Rightarrow> bool" where
  "firstVisible els = (case els of [] \<Rightarrow> False | el # _ \<Rightarrow> isVisible el)"

text \<open>
  \<open>cells\<close> is \<open>rowLocator.locator('[role="cell"]').all()\<close>, a list of \<open>Locator\<close>s.
\<close>

definition mineSelectors :: "page \<Rightarrow> string list \<Rightarrow> error + minedSelectors" where
  "mineSelectors pg rowSelectors =
    (if \<not> firstVisible (locator pg tableReadySel) then Inl TimeoutError
     else (case findRowLocator pg rowSelectors of
             None \<Rightarrow> Inr []
           | Some (rowSelector, rowLocator) \<Rightarrow>
               if \<not> isVisible rowLocator then Inl TimeoutError
               else (let mined = (case mineRowClass rowLocator of
                                    Some rowClass \<Rightarrow> [(''rowClass'', Some (rowClassSelector rowClass))]
                                  | None \<Rightarrow> []);
                         cells = map Locator (query rowLocator minerCellSel)
                     in if length cells < 10 then Inr mined
                        else Inr (foldl (mineCell pg cells) mined cellMapping))))"

text \<open>The row-class entry with which \<open>mined\<close> enters the loop over the cells.\<close>

definition rowClassEntry :: "element \<Rightarrow> minedSelectors" where
  "rowClassEntry row =
     (case mineRowClass row of
        Some rowClass \<Rightarrow> [(''rowClass'', Some (rowClassSelector rowClass))]
      | None \<Rightarrow> [])"

subsection \<open>The scraper's row discovery (step 1 of \<open>scrapeCurrentPage\<close>)\<close>

text \<open>
  The selector taken and the rows it matched, or \<open>None\<close> when the loop ends with
  \<open>rows\<close> still empty and the function returns. \<open>cellSel\<close> is \<open>SELECTORS.table.cell\<close>.
\<close>

fun scrapeFindRows :: "page \<Rightarrow> string \<Rightarrow> string list \<Rightarrow> (string \<times> element list) option" where
  "scrapeFindRows pg cellSel [] = None"
| "scrapeFindRows pg cellSel (selector # rest) =
     (case locator pg selector of
        [] \<Rightarrow> scrapeFindRows pg cellSel rest
      | c # cs \<Rightarrow>
          if length (query c cellSel) \<ge> 10 then Some (selector, c # cs)
          else scrapeFindRows pg cellSel rest)"

subsection \<open>LocatorValidator: \<open>validateSelectors\<close>\<close>

text \<open>
  \<open>validCount / (totalCount - 1)\<close> is a JavaScript number. Both operands are small
  integers (the mapping has at most twelve keys), so a finite quotient is kept as the exact
  rational: the correctly rounded double of \<open>v / n\<close> is at least the double \<open>0.7\<close> exactly
  when \<open>v / n\<close> is at least \<open>7 / 10\<close>. Division by zero gives an infinity or \<open>NaN\<close>.
\<close>

datatype jsNumber = Finite rat | PosInfinity | NegInfinity | NaN

definition jsDiv :: "int \<Rightarrow> int \<Rightarrow> jsNumber" where
  "jsDiv a b =
    (if b = 0 then (if a = 0 then NaN else if a > 0 then PosInfinity else NegInfinity)
     else Finite (of_int a / of_int b))"

definition jsGe :: "jsNumber \<Rightarrow> rat \<Rightarrow> bool" where
  "jsGe x r =
    (case x of
       Finite q \<Rightarrow> r \<le> q
     | PosInfinity \<Rightarrow> True
     | NegInfinity \<Rightarrow> False
     | NaN \<Rightarrow> False)"

text \<open>
  One turn of the validation loop: is the entry skipped, and if not, is it valid. A
  locator that throws is caught in the turn and is not counted.
\<close>

definition skipped :: "string \<times> string option \<Rightarrow> bool" where
  "skipped entry = (\<not> truthy (snd entry) \<or> fst entry = ''rowClass'')"

definition selectorValid :: "page \<Rightarrow> string \<Rightarrow> bool" where
  "selectorValid pg selector =
    (if malformed pg selector then False
     else (let els = locator pg selector;
               count = length els;
               visible = (if count > 0 then isVisible (hd els) else False)
           in count > 0 \<and> visible))"

fun validCount :: "page \<Rightarrow> minedSelectors \<Rightarrow> nat" where
  "validCount pg [] = 0"
| "validCount pg (entry # rest) =
     (if skipped entry then validCount pg rest
      else if selectorValid pg (the (snd entry)) then Suc (validCount pg rest)
      else validCount pg rest)"

definition totalCount :: "minedSelectors \<Rightarrow> nat" where
  "totalCount mined = length (map fst mined)"

definition validityRate :: "page \<Rightarrow> minedSelectors \<Rightarrow> jsNumber" where
  "validityRate pg mined = jsDiv (int (validCount pg mined)) (int (totalCount mined) - 1)"

definition validateSelectors :: "page \<Rightarrow> minedSelectors \<Rightarrow> bool" where
  "validateSelectors pg mined = jsGe (validityRate pg mined) (7 / 10)"

text \<open>The entries the loop does not skip: the fields whose locator is resolved.\<close>

definition attempted :: "minedSelectors \<Rightarrow> minedSelectors" where
  "attempted mined = filter (\<lambda>entry. \<not> skipped entry) mined"

subsection \<open>ConfigUpdater: \<open>updateSelectors\<close>\<close>

text \<open>
  The part of \<open>selectors.ts\<close> the updater reads and writes. A table object literal is
  the element texts of its \<open>rowSelectors\<close> array literal (\<open>None\<close> when it has no such
  property) and its other properties with the text of their initializer; texts are
  source texts, quotes included. The file is the comment blocks the updater has inserted
  at the top (newest first), the member named \<open>table\<close> of the \<open>SELECTORS\<close> object literal,
  which is what \<open>getPropertyOrThrow('table')\<close> finds, and the table object under
  \<open>current\<close> when there is one. In both copies of \<open>selectors.ts\<close> in the repository the
  member named \<open>table\<close> is the accessor \<open>get table() { return this.current.table; }\<close>.
  A change-log line is kept as its parts instead of the formatted string.
\<close>

datatype change =
  RowSelectorChanged string string
| PropertyChanged string string string
| PropertyAdded string string

record tableLiteral =
  rowSelectorsProp :: "string list option"
  tableProps :: "(string \<times> string) list"

datatype tableMember =
  PropertyAssignment tableLiteral
| GetAccessor
| NoMember

record selectorsFile =
  headerNotes :: "(string \<times> change list) list"
  topLevelTable :: tableMember
  currentTable :: "tableLiteral option"

text \<open>What \<open>SELECTORS.table\<close> evaluates to when the module is loaded.\<close>

definition loadedTable :: "selectorsFile \<Rightarrow> tableLiteral option" where
  "loadedTable f =
    (case topLevelTable f of
       PropertyAssignment t \<Rightarrow> Some t
     | GetAccessor \<Rightarrow> currentTable f
     | NoMember \<Rightarrow> None)"

text \<open>\<open>text.replace(/['"]/g, '')\<close> and the template \<open>'${value}'\<close>\<close>

definition stripQuotes :: "string \<Rightarrow> string" where
  "stripQuotes t = filter (\<lambda>c. c \<noteq> CHR 0x27 \<and> c \<noteq> CHR 0x22) t"

definition quoted :: "string \<Rightarrow> string" where
  "quoted v = sq @ v @ sq"

definition fallbackSelector :: string where
  "fallbackSelector = ''div.zp_Uiy0R''"

definition updateRowSelectors ::
  "minedSelectors \<Rightarrow> string list option \<Rightarrow> string list option \<times> change list" where
  "updateRowSelectors mined rowSelProp =
    (if truthy (getProp mined ''rowClass'') then
       (let rowClass = the (getProp mined ''rowClass'')
        in (case rowSelProp of
              None \<Rightarrow> (None, [])
            | Some elements \<Rightarrow>
                if length elements > 1 then
                  (let oldValue = stripQuotes (elements ! 1)
                   in if oldValue \<noteq> rowClass then
                        (let arr = (if length elements < 3
                                    then elements @ [quoted fallbackSelector]
                                    else elements)
                         in (Some (arr[1 := quoted rowClass]),
                             [RowSelectorChanged oldValue rowClass]))
                      else (Some elements, []))
                else (Some elements, [])))
     else (rowSelProp, []))"

text \<open>One turn of the loop over \<open>Object.entries(mined)\<close>, on the properties and the changes so far.\<close>

definition updateProp ::
  "(string \<times> string) list \<times> change list \<Rightarrow> string \<times> string option
     \<Rightarrow> (string \<times> string) list \<times> change list" where
  "updateProp st entry =
    (let props = fst st; changes = snd st; key = fst entry
     in if key = ''rowClass'' \<or> \<not> truthy (snd entry) then st
        else (let v = the (snd entry)
              in (case map_of props key of
                    Some init \<Rightarrow>
                      (let oldValue = stripQuotes init
                       in if oldValue \<noteq> v then
                            (setProp key (quoted v) props,
                             changes @ [PropertyChanged key oldValue v])
                          else st)
                  | None \<Rightarrow>
                      (props @ [(key, quoted v)], changes @ [PropertyAdded key v]))))"

record updateResult =
  fileAfter :: selectorsFile
  backupAfter :: selectorsFile
  changes :: "change list"
  saved :: bool
  thrown :: "error option"

text \<open>
  \<open>timestamp\<close> is \<open>new Date().toISOString()\<close>. The backup is made first and is the file as
  it was found. \<open>getPropertyOrThrow('table')\<close> throws when there is no such member; a
  member that is an accessor is cast to a property assignment and the call of
  \<open>getInitializerIfKindOrThrow\<close> on it is a \<open>TypeError\<close>. After a save,
  \<open>testUpdatedSelectors\<close> begins with \<open>delete require.cache[...]\<close>, which in an ES module
  is a \<open>ReferenceError\<close>; the file stays written.
\<close>

definition updateSelectors :: "minedSelectors \<Rightarrow> string \<Rightarrow> selectorsFile \<Rightarrow> updateResult" where
  "updateSelectors mined timestamp f =
    (case topLevelTable f of
       NoMember \<Rightarrow>
         \<lparr>fileAfter = f, backupAfter = f, changes = [], saved = False,
          thrown = Some InvalidOperationError\<rparr>
     | GetAccessor \<Rightarrow>
         \<lparr>fileAfter = f, backupAfter = f, changes = [], saved = False,
          thrown = Some TypeError\<rparr>
     | PropertyAssignment tableObj \<Rightarrow>
         (let (rowSel, changes1) = updateRowSelectors mined (rowSelectorsProp tableObj);
              (props, changes2) = foldl updateProp (tableProps tableObj, changes1) mined;
              changed = length changes2
          in if changed > 0 then
               \<lparr>fileAfter =
                  f\<lparr>headerNotes := (timestamp, changes2) # headerNotes f,
                    topLevelTable :=
                      PropertyAssignment \<lparr>rowSelectorsProp = rowSel, tableProps = props\<rparr>\<rparr>,
                backupAfter = f, changes = changes2, saved = True,
                thrown = Some ReferenceError\<rparr>
             else
               \<lparr>fileAfter = f, backupAfter = f, changes = changes2, saved = False,
                thrown = None\<rparr>))"

subsection \<open>The mining pass of \<open>main\<close>\<close>

text \<open>
  The request handler after login and navigation. \<open>rowSelectors\<close> is
  \<open>SELECTORS.table.rowSelectors\<close> as loaded with the module. What \<open>mineSelectors\<close> or
  \<open>updateSelectors\<close> throws is logged and thrown again.
\<close>

datatype passOutcome =
  Updated updateResult
| FailedValidation
| NotEnoughSelectors

definition requestHandler ::
  "page \<Rightarrow> string list \<Rightarrow> string \<Rightarrow> selectorsFile \<Rightarrow> error + passOutcome" where
  "requestHandler pg rowSelectors timestamp f =
    (case mineSelectors pg rowSelectors of
       Inl e \<Rightarrow> Inl e
     | Inr mined \<Rightarrow>
         if length (map fst mined) > 3 then
           (if validateSelectors pg mined then
              (let r = updateSelectors mined timestamp f
               in (case thrown r of
                     Some e \<Rightarrow> Inl e
                   | None \<Rightarrow> Inr (Updated r)))
            else Inr FailedValidation)
         else Inr NotEnoughSelectors)"

subsection \<open>DriftMonitor: \<open>handleSelectorFailures\<close> and the counters of \<open>generateReport\<close>\<close>

record selectorTestResult =
  exists :: bool
  count :: nat
  description :: string

record categoryResults =
  category :: string
  results :: "selectorTestResult list"

text \<open>What the monitor's failure handler does is write log lines; it returns nothing.\<close>

datatype logLine =
  WarnSuggestingAutoMining nat
| InfoTriggeringMiner

text \<open>\<open>autoMine\<close> is \<open>process.env.AUTO_MINE_ON_FAILURE\<close>.\<close>

definition failedSelectors :: "categoryResults list \<Rightarrow> string list" where
  "failedSelectors rs =
     map description (filter (\<lambda>r. \<not> exists r \<and> count r = 0) (concat (map results rs)))"

definition handleSelectorFailures :: "categoryResults list \<Rightarrow> string option \<Rightarrow> logLine list" where
  "handleSelectorFailures rs autoMine =
    (if length (failedSelectors rs) > 3 then
       WarnSuggestingAutoMining (length (failedSelectors rs))
         # (if autoMine = Some ''true'' then [InfoTriggeringMiner] else [])
     else [])"

text \<open>The counters \<open>passed\<close>, \<open>failed\<close> and \<open>warnings\<close> of \<open>generateReport\<close>.\<close>

definition reportPassed :: "categoryResults list \<Rightarrow> nat" where
  "reportPassed rs = length (filter exists (concat (map results rs)))"

definition reportFailed :: "categoryResults list \<Rightarrow> nat" where
  "reportFailed rs = length (filter (\<lambda>r. \<not> exists r) (concat (map results rs)))"

definition reportWarnings :: "categoryResults list \<Rightarrow> nat" where
  "reportWarnings rs =
     length (filter (\<lambda>r. exists r \<and> count r > 0 \<and> count r < 5 \<and> sublist ''row'' (description r))
                    (concat (map results rs)))"

subsection \<open>Sample documents and configurations\<close>

text \<open>Builders for the concrete documents used below.\<close>

definition leaf :: "string \<Rightarrow> string list \<Rightarrow> element" where
  "leaf tag classes = Element tag None [] classes None [] None True None (\<lambda>_. [])"

definition withParent :: "element \<Rightarrow> element \<Rightarrow> element" where
  "withParent p el =
     Element (tagName el) (testid el) (elemId el) (classList el) (role el)
       (siblingClassLists el) (Some p) (isVisible el) (textContent el) (query el)"

definition container :: "string \<Rightarrow> (string \<times> element list) list \<Rightarrow> element" where
  "container tag answers =
     Element tag None [] [] None [] None True None
       (\<lambda>s. case map_of answers s of None \<Rightarrow> [] | Some els \<Rightarrow> els)"

text \<open>\<open>SELECTORS.table.cell\<close> and \<open>SELECTORS.table.rowSelectors\<close> as shipped.\<close>

definition scraperCellSel :: string where
  "scraperCellSel = ''div[role='' @ dq @ ''cell'' @ dq @ '']''"

definition rowSel0 :: string where
  "rowSel0 = ''div[role='' @ dq @ ''row'' @ dq @ ''][aria-rowindex]:not([aria-rowindex=''
             @ dq @ ''0'' @ dq @ ''])''"

definition rowSel1 :: string where
  "rowSel1 = ''div.zp_Uiy0R''"

definition rowSel2 :: string where
  "rowSel2 = ''div[role='' @ dq @ ''row'' @ dq @ '']:not(:has([role='' @ dq @ ''columnheader''
             @ dq @ '']))''"

definition shippedRowSelectors :: "string list" where
  "shippedRowSelectors = [rowSel0, rowSel1, rowSel2]"

definition rowOf :: "string list \<Rightarrow> element list \<Rightarrow> element" where
  "rowOf classes cells =
     Element ''div'' None [] classes (Some ''row'') [] None True None
       (\<lambda>s. if s = minerCellSel \<or> s = scraperCellSel then cells else [])"

text \<open>A span whose third ancestor is the nearest element that yields a selector.\<close>

definition testidRow :: element where
  "testidRow = Element ''div'' (Some ''contact-row'') [] [] None [] None True None (\<lambda>_. [])"

definition deepSpan :: element where
  "deepSpan =
     withParent (withParent (withParent testidRow (leaf ''div'' [])) (leaf ''div'' []))
       (leaf ''span'' [])"

text \<open>
  A document whose first row selector matches a five-cell row first, while the third
  selector matches the twelve-cell data rows.
\<close>

definition shortRow :: element where
  "shortRow = rowOf [''zp_headerRowX''] (replicate 5 (leaf ''div'' []))"

definition fullRow :: element where
  "fullRow = rowOf [''dataRow''] (replicate 12 (leaf ''div'' []))"

definition driftedPage :: page where
  "driftedPage =
     \<lparr>locator = (\<lambda>s. if s = tableReadySel then [fullRow]
                       else if s = rowSel0 then [shortRow, fullRow]
                       else if s = rowSel2 then [fullRow, fullRow]
                       else []),
      malformed = (\<lambda>s. False)\<rparr>"

text \<open>
  A data row of thirteen cells with a name anchor, a job title, a company link, an email
  cell holding the access button, and a profile link. The row carries two qualifying
  classes, the shorter one first, and the document resolves the shorter one to the row.
\<close>

definition nameAnchor :: element where
  "nameAnchor =
     Element ''a'' (Some ''contact-name-cell'') [] [] None [] None True None
       (\<lambda>s. if s = ''span'' then [leaf ''span'' [''zp_CaeaN'']] else [])"

definition sampleCells :: "element list" where
  "sampleCells =
    [leaf ''div'' [],
     container ''div'' [(nameAnchorSel, [nameAnchor])],
     container ''div'' [(interactiveSel, [leaf ''span'' [''zp_FEm_X'']])],
     container ''div'' [(interactiveSel, [leaf ''a'' [''zp_REh41'']])],
     container ''div'' [(accessBtnSel, [leaf ''button'' []])],
     leaf ''div'' [], leaf ''div'' [],
     container ''div'' [(linkedInSel, [leaf ''a'' []])],
     leaf ''div'' [], leaf ''div'' [], leaf ''div'' [], leaf ''div'' [], leaf ''div'' []]"

definition sampleRow :: element where
  "sampleRow = rowOf [''zp_rowShortA'', ''zp_rowMuchLongerB''] sampleCells"

definition nameSel :: string where
  "nameSel = ''a[data-testid='' @ dq @ ''contact-name-cell'' @ dq @ ''] span.zp_CaeaN''"

definition samplePage :: page where
  "samplePage =
     \<lparr>locator = (\<lambda>s.
        if s = tableReadySel \<or> s = rowSel0 \<or> s = ''div.zp_rowShortA'' then [sampleRow]
        else if s \<in> set [nameSel, ''span.zp_FEm_X'', ''a.zp_REh41'', linkedInSel, accessBtnSel]
        then [leaf ''span'' []]
        else []),
      malformed = (\<lambda>s. False)\<rparr>"

definition sampleMined :: minedSelectors where
  "sampleMined = [(''rowClass'', Some ''div.zp_rowShortA'')]"

text \<open>Mappings for the validator, and documents on which a given list of locators resolves.\<close>

definition pageResolving :: "string list \<Rightarrow> page" where
  "pageResolving valid =
     \<lparr>locator = (\<lambda>s. if s \<in> set valid then [leaf ''span'' []] else []),
      malformed = (\<lambda>s. False)\<rparr>"

definition minedTen :: minedSelectors where
  "minedTen =
    [(''rowClass'', Some ''div.zp_rowShortA''),
     (''name'', Some ''a.zp_f01''), (''jobTitle'', Some ''span.zp_f02''),
     (''companyName'', Some ''a.zp_f03''), (''emailRequiresAccess'', Some ''button.zp_f04''),
     (''email'', Some ''span.zp_f05''), (''phoneRequestLink'', Some ''a.zp_f06''),
     (''linkedIn'', Some ''a.zp_f07''), (''location'', Some ''span.zp_f08''),
     (''employeeCount'', Some ''span.zp_f09''), (''nicheTags'', Some ''span.zp_f10'')]"

definition sevenOfTen :: "string list" where
  "sevenOfTen = [''a.zp_f01'', ''span.zp_f02'', ''a.zp_f03'', ''button.zp_f04'',
                 ''span.zp_f05'', ''a.zp_f06'', ''a.zp_f07'']"

text \<open>The same mapping with the key \<open>phoneVisible\<close> holding \<open>null\<close>.\<close>

definition minedTenAndNull :: minedSelectors where
  "minedTenAndNull = minedTen @ [(''phoneVisible'', None)]"

text \<open>Five fields and no row-class entry, three of the five resolving.\<close>

definition minedFive :: minedSelectors where
  "minedFive =
    [(''name'', Some ''a.zp_f01''), (''jobTitle'', Some ''span.zp_f02''),
     (''companyName'', Some ''a.zp_f03''), (''email'', Some ''span.zp_f05''),
     (''location'', Some ''span.zp_f08'')]"

definition threeOfFive :: "string list" where
  "threeOfFive = [''a.zp_f01'', ''span.zp_f02'', ''a.zp_f03'']"

text \<open>
  \<open>selectors.ts\<close> as the repository has it: \<open>table\<close> is an accessor at the top level, and
  the table object sits under \<open>current\<close>.
\<close>

definition shippedFile :: selectorsFile where
  "shippedFile =
    \<lparr>headerNotes = [],
     topLevelTable = GetAccessor,
     currentTable = Some
       \<lparr>rowSelectorsProp = Some [quoted rowSel0, quoted rowSel1, quoted rowSel2],
        tableProps =
          [(''cell'', quoted scraperCellSel),
           (''name'', quoted nameSel),
           (''jobTitle'', quoted ''span.zp_FEm_X''),
           (''companyName'', quoted ''a.zp_REh41 span.zp_CaeaN''),
           (''email'', quoted ''span.zp_CaeaN.zp_JTaUA''),
           (''emailRequiresAccess'', quoted accessBtnSel),
           (''phoneRequestLink'',
              quoted (''a.zp_BCsLt:has-text('' @ dq @ ''Request'' @ dq @ '')'')),
           (''phoneVisible'', quoted ''span.zp_CaeaN''),
           (''linkedIn'', quoted linkedInSel),
           (''location'', quoted ''span.zp_FEm_X''),
           (''employeeCount'', quoted ''span.zp_Vnh4L''),
           (''nicheTags'', quoted ''span.zp_z4aAi'')]\<rparr>\<rparr>"

text \<open>A mining result with a new row class and three fields.\<close>

definition minedNewRow :: minedSelectors where
  "minedNewRow =
    [(''rowClass'', Some ''div.zp_rowShortA''),
     (''jobTitle'', Some ''span.zp_FEm_X''),
     (''location'', Some ''span.zp_FEm_X''),
     (''nicheTags'', Some ''span.zp_z4aAi'')]"

text \<open>
  A monitoring run in which four probes failed: the modal probe, the two navigation
  probes, and the entry pushed for a first row of seven cells.
\<close>

definition monitorRun :: "categoryResults list" where
  "monitorRun =
    [\<lparr>category = ''LOGIN PAGE'',
      results = [\<lparr>exists = True, count = 1, description = ''Email input field''\<rparr>,
                 \<lparr>exists = True, count = 1, description = ''Password input field''\<rparr>,
                 \<lparr>exists = True, count = 1, description = ''Login submit button''\<rparr>]\<rparr>,
     \<lparr>category = ''POST-LOGIN'',
      results = [\<lparr>exists = True, count = 1, description = ''Main app container''\<rparr>,
                 \<lparr>exists = False, count = 0, description = ''Modal popups''\<rparr>]\<rparr>,
     \<lparr>category = ''DATA TABLE'',
      results = [\<lparr>exists = True, count = 25,
                   description = ''Data table rows (Check if data loaded)''\<rparr>,
                 \<lparr>exists = True, count = 7, description = ''Table cells in first row''\<rparr>,
                 \<lparr>exists = False, count = 7,
                   description = ''Insufficient cells found in first row (Expected >= 10)''\<rparr>]\<rparr>,
     \<lparr>category = ''NAVIGATION'',
      results = [\<lparr>exists = False, count = 0, description = ''Next page button''\<rparr>,
                 \<lparr>exists = False, count = 0, description = ''Page number input''\<rparr>]\<rparr>]"

definition fourPlainFailures :: "categoryResults list" where
  "fourPlainFailures =
    [\<lparr>category = ''LOGIN PAGE'',
      results = [\<lparr>exists = False, count = 0, description = ''Email input field''\<rparr>,
                 \<lparr>exists = False, count = 0, description = ''Password input field''\<rparr>,
                 \<lparr>exists = False, count = 0, description = ''Login submit button''\<rparr>]\<rparr>,
     \<lparr>category = ''POST-LOGIN'',
      results = [\<lparr>exists = False, count = 0, description = ''Main app container''\<rparr>,
                 \<lparr>exists = True, count = 1, description = ''Modal popups''\<rparr>]\<rparr>]"

text \<open>Timestamps of two successive updates.\<close>

definition stamp1 :: string where
  "stamp1 = ''2025-01-01T00:00:00.000Z''"


section \<open>Properties\<close>

subsection \<open>What the miner can record\<close>

text \<open>
  The cells handed to the loop are \<open>Locator\<close>s, so every case of the \<open>switch\<close> raises at
  its first \<open>cell.$\<close> and the generic case gets \<open>null\<close> from \<open>mineCellSelector\<close>: no turn
  of the loop changes \<open>mined\<close>. A pass therefore returns the row-class entry or nothing,
  and the request handler never gets past its check of the number of keys.
\<close>

lemma mineCellSelector_Locator: "mineCellSelector pg (Locator el) = None"
  by (simp add: mineCellSelector_def)

lemma mineCell_Locator: "mineCell pg (map Locator els) mined mapping = mined"
  by (simp add: mineCell_def Let_def mineName_def mineLinkedIn_def mineEmail_def minePhone_def
        mineCellSelector_Locator truthy_def)

lemma foldl_mineCell_Locator: "foldl (mineCell pg (map Locator els)) mined mappings = mined"
  by (induction mappings) (simp_all add: mineCell_Locator)

lemma mineSelectors_found:
  assumes "mineSelectors pg rowSelectors = Inr mined"
      and "findRowLocator pg rowSelectors = Some (sel, row)"
  shows "mined = rowClassEntry row"
  using assms
  by (simp add: mineSelectors_def rowClassEntry_def Let_def foldl_mineCell_Locator
           split: if_splits)

lemma getProp_rowClassEntry:
  "getProp (rowClassEntry row) k =
     (if k = ''rowClass'' then map_option rowClassSelector (mineRowClass row) else None)"
  by (simp add: rowClassEntry_def getProp_def split: option.splits)

lemma mineSelectors_rowClass:
  assumes "mineSelectors pg rowSelectors = Inr mined"
      and "findRowLocator pg rowSelectors = Some (sel, row)"
  shows "getProp mined ''rowClass'' = map_option rowClassSelector (mineRowClass row)"
  using mineSelectors_found [OF assms] by (simp add: getProp_rowClassEntry)

lemma mineSelectors_at_most_rowClass:
  assumes "mineSelectors pg rowSelectors = Inr mined"
  shows "length (map fst mined) \<le> 1"
proof (cases "findRowLocator pg rowSelectors")
  case None
  with assms show ?thesis by (simp add: mineSelectors_def split: if_splits)
next
  case (Some found)
  obtain sel row where "found = (sel, row)" by (cases found)
  with Some assms have "mined = rowClassEntry row" by (simp add: mineSelectors_found)
  then show ?thesis by (simp add: rowClassEntry_def split: option.splits)
qed

lemma requestHandler_stops_at_key_count:
  "requestHandler pg rowSelectors timestamp f = Inr NotEnoughSelectors
   \<or> (\<exists>e. requestHandler pg rowSelectors timestamp f = Inl e
            \<and> mineSelectors pg rowSelectors = Inl e)"
proof (cases "mineSelectors pg rowSelectors")
  case (Inl e)
  then show ?thesis by (simp add: requestHandler_def)
next
  case (Inr mined)
  with mineSelectors_at_most_rowClass [OF Inr] show ?thesis
    by (simp add: requestHandler_def)
qed

subsection \<open>C1: row discovery of the miner\<close>

text \<open>
  Claim C1: row discovery accepts the first row-selector candidate whose first match holds
  at least ten cells, and a pass in which no candidate does returns an empty result.
  \<open>mineSelectors\<close> announces the scraper's logic but takes the first candidate that
  matches anything. On \<open>driftedPage\<close> the first shipped selector matches a five-cell row
  first: the miner settles on it and returns a result holding the row class of that row,
  whereas step 1 of \<open>scrapeCurrentPage\<close> passes over it and takes the third selector,
  whose first match has twelve cells. Nothing is written in that pass: one key is not
  enough for the pass to go on.
\<close>

theorem miner_row_discovery_skips_cell_threshold:
  "map_option fst (findRowLocator driftedPage shippedRowSelectors) = Some rowSel0
   \<and> mineSelectors driftedPage shippedRowSelectors
       = Inr [(''rowClass'', Some ''div.zp_headerRowX'')]
   \<and> map_option fst (scrapeFindRows driftedPage scraperCellSel shippedRowSelectors)
       = Some rowSel2
   \<and> requestHandler driftedPage shippedRowSelectors stamp1 shippedFile
       = Inr NotEnoughSelectors"
  by code_simp

subsection \<open>C2: the acceptance threshold\<close>

text \<open>
  Claim C2: with \<open>v\<close> valid fields out of \<open>n\<close> attempted fields, the mapping is accepted
  exactly when \<open>v / n \<ge> 0.70\<close>, the bound included: seven valid out of ten attempted is
  accepted. \<open>validateSelectors\<close> divides by the number of keys less one, which is not the
  number of fields it attempted. With the row class, ten fields of which seven are valid,
  and the key \<open>phoneVisible\<close> holding \<open>null\<close> (which the loop skips), it divides by eleven
  and rejects; without that key the same seven out of ten are accepted. The defect is the
  one of C3.
\<close>

theorem threshold_counts_null_entries:
  "length (attempted minedTenAndNull) = 10
   \<and> validCount (pageResolving sevenOfTen) minedTenAndNull = 7
   \<and> validityRate (pageResolving sevenOfTen) minedTenAndNull = Finite (7 / 11)
   \<and> \<not> validateSelectors (pageResolving sevenOfTen) minedTenAndNull
   \<and> length (attempted minedTen) = 10
   \<and> validCount (pageResolving sevenOfTen) minedTen = 7
   \<and> validateSelectors (pageResolving sevenOfTen) minedTen"
  by code_simp

subsection \<open>C3: the denominator of the validity ratio\<close>

text \<open>
  Claim C3: the attempted count leaves out exactly the row-class entry, and nothing when
  there is none. \<open>validateSelectors\<close> subtracts one from the number of keys whether or not
  \<open>rowClass\<close> is among them. For five fields without a row-class entry, three of them
  valid, it divides by four and accepts at \<open>3 / 4\<close>, where three out of five is below the
  threshold.
\<close>

theorem denominator_without_rowClass:
  "map_of minedFive ''rowClass'' = None
   \<and> length (attempted minedFive) = 5
   \<and> validCount (pageResolving threeOfFive) minedFive = 3
   \<and> validityRate (pageResolving threeOfFive) minedFive = Finite (3 / 4)
   \<and> validateSelectors (pageResolving threeOfFive) minedFive"
  by code_simp

subsection \<open>C4: applying the same update twice\<close>



subsection \<open>C5: priority order of the row selectors\<close>

text \<open>
  Claim C5: after an update that carries a row class, \<open>rowSelectors\<close> keeps its first
  entry, holds the mined class as its second entry and still holds the fallback later.
  On \<open>selectors.ts\<close> as the repository has it the updater throws a \<open>TypeError\<close> at the
  lookup of the table and never comes to the row selectors: nothing is written, and the
  second entry of the loaded list is still the old one, not the mined class.
\<close>

theorem updater_throws_before_the_row_selectors:
  "truthy (getProp minedNewRow ''rowClass'')
   \<and> thrown (updateSelectors minedNewRow stamp1 shippedFile) = Some TypeError
   \<and> \<not> saved (updateSelectors minedNewRow stamp1 shippedFile)
   \<and> map_option rowSelectorsProp
        (loadedTable (fileAfter (updateSelectors minedNewRow stamp1 shippedFile)))
       = Some (Some [quoted rowSel0, quoted rowSel1, quoted rowSel2])
   \<and> stripQuotes (quoted rowSel1) \<noteq> the (getProp minedNewRow ''rowClass'')"
  by (simp add: updateSelectors_def shippedFile_def loadedTable_def minedNewRow_def getProp_def
        truthy_def stripQuotes_def quoted_def rowSel1_def sq_def)

subsection \<open>C6: how far the generator walks up\<close>

text \<open>
  Claim C6: the heuristic is tried on the element and then on up to three ancestors.
  The loop runs three times in all, so it tries the element and two ancestors. For
  \<open>deepSpan\<close> the third ancestor is the only one that yields a selector, and the generator
  returns none.
\<close>

theorem findBestSelector_stops_at_second_ancestor:
  "findBestSelector deepSpan = None
   \<and> map_option (\<lambda>s. s = ''div[data-testid='' @ dq @ ''contact-row'' @ dq @ '']'')
        (case parentElement deepSpan of
           None \<Rightarrow> None
         | Some p1 \<Rightarrow>
             (case parentElement p1 of
                None \<Rightarrow> None
              | Some p2 \<Rightarrow>
                  (case parentElement p2 of
                     None \<Rightarrow> None
                   | Some p3 \<Rightarrow> generateSelector p3))) = Some True"
  by code_simp

subsection \<open>C7: the mined row class\<close>

text \<open>
  Claim C7, as the code has it: the recorded row class is built from the first class, in
  class-list order, that starts with \<open>zp_\<close> and is longer than ten characters; when no class
  qualifies, none is recorded.
\<close>

theorem rowClass_first_qualifying:
  assumes "mineSelectors pg rowSelectors = Inr mined"
      and "findRowLocator pg rowSelectors = Some (sel, row)"
  shows "case getProp mined ''rowClass'' of
           None \<Rightarrow> \<forall>c \<in> set (classList row). \<not> (startsWithZp c \<and> length c > 10)
         | Some rc \<Rightarrow>
             \<exists>i < length (classList row).
               rc = rowClassSelector (classList row ! i)
               \<and> startsWithZp (classList row ! i) \<and> length (classList row ! i) > 10
               \<and> (\<forall>j < i. \<not> (startsWithZp (classList row ! j) \<and> length (classList row ! j) > 10))"
proof -
  let ?P = "\<lambda>c. startsWithZp c \<and> length c > 10"
  have g: "getProp mined ''rowClass'' = map_option rowClassSelector (find ?P (classList row))"
    using mineSelectors_rowClass [OF assms] by (simp add: mineRowClass_def)
  show ?thesis
  proof (cases "find ?P (classList row)")
    case None
    then have "\<forall>c \<in> set (classList row). \<not> ?P c"
      by (simp add: find_None_iff)
    with None g show ?thesis by simp
  next
    case (Some c)
    then obtain i where "i < length (classList row)" "?P (classList row ! i)"
      "c = classList row ! i" "\<forall>j < i. \<not> ?P (classList row ! j)"
      unfolding find_Some_iff by blast
    with Some g show ?thesis by auto
  qed
qed

text \<open>
  It is not the longest: the row of \<open>samplePage\<close> carries a longer qualifying class after
  the one that is recorded.
\<close>

theorem rowClass_not_the_longest:
  "map_option (classList \<circ> snd) (findRowLocator samplePage shippedRowSelectors)
     = Some [''zp_rowShortA'', ''zp_rowMuchLongerB'']
   \<and> mineSelectors samplePage shippedRowSelectors
       = Inr [(''rowClass'', Some (rowClassSelector ''zp_rowShortA''))]
   \<and> startsWithZp ''zp_rowMuchLongerB''
   \<and> 10 < length ''zp_rowMuchLongerB''
   \<and> length ''zp_rowShortA'' < length ''zp_rowMuchLongerB''"
  by code_simp

theorem rowClass_first_qualifying_witness:
  "mineSelectors samplePage shippedRowSelectors = Inr sampleMined
   \<and> findRowLocator samplePage shippedRowSelectors = Some (rowSel0, sampleRow)
   \<and> (\<exists>i < length (classList sampleRow).
         getProp sampleMined ''rowClass'' = Some (rowClassSelector (classList sampleRow ! i))
         \<and> startsWithZp (classList sampleRow ! i) \<and> length (classList sampleRow ! i) > 10
         \<and> (\<forall>j < i. \<not> (startsWithZp (classList sampleRow ! j)
                          \<and> length (classList sampleRow ! j) > 10)))"
proof -
  have h1: "mineSelectors samplePage shippedRowSelectors = Inr sampleMined" by code_simp
  have h2: "findRowLocator samplePage shippedRowSelectors = Some (rowSel0, sampleRow)"
    by (simp add: samplePage_def shippedRowSelectors_def)
  have g: "getProp sampleMined ''rowClass'' = Some ''div.zp_rowShortA''"
    by (simp add: sampleMined_def getProp_def)
  from rowClass_first_qualifying [OF h1 h2] h1 h2 show ?thesis
    by (simp add: g)
qed

subsection \<open>C8: the email cell\<close>

text \<open>
  Claim C8: whenever the access-required action element is present in the email cell,
  the field is recorded as access-gated. The email case asks the cell with \<open>cell.$\<close>, which
  a \<open>Locator\<close> does not have; the \<open>TypeError\<close> is caught by the turn of the loop and
  nothing is recorded. On \<open>samplePage\<close> the fifth cell of the row holds the access button,
  and the pass returns the row class alone.
\<close>

theorem email_cell_records_nothing:
  "map_option (\<lambda>r. length (query (query (snd r) minerCellSel ! 4) accessBtnSel))
        (findRowLocator samplePage shippedRowSelectors) = Some 1
   \<and> (case mineSelectors samplePage shippedRowSelectors of
         Inl e \<Rightarrow> False
       | Inr mined \<Rightarrow>
           map fst mined = [''rowClass'']
           \<and> getProp mined ''emailRequiresAccess'' = None
           \<and> getProp mined ''email'' = None)"
  by code_simp

subsection \<open>C9: escalation by the monitor\<close>

text \<open>
  Claim C9, as the code has it: the handler counts the results with \<open>exists\<close> false and
  a count of zero; when there are more than three it writes a warning that suggests
  auto-mining, and one more line when \<open>AUTO_MINE_ON_FAILURE\<close> is \<open>true\<close>. These log lines
  are all it does: it returns nothing, sets nothing and starts no miner. Its count is at
  most the number of failed probes in the report.
\<close>

theorem suggestion_is_a_log_line:
  "(WarnSuggestingAutoMining n \<in> set (handleSelectorFailures rs autoMine)
      \<longleftrightarrow> n = length (filter (\<lambda>r. \<not> exists r \<and> count r = 0) (concat (map results rs)))
          \<and> 3 < n)
   \<and> (InfoTriggeringMiner \<in> set (handleSelectorFailures rs autoMine)
      \<longleftrightarrow> 3 < length (filter (\<lambda>r. \<not> exists r \<and> count r = 0) (concat (map results rs)))
          \<and> autoMine = Some ''true'')
   \<and> length (filter (\<lambda>r. \<not> exists r \<and> count r = 0) (concat (map results rs)))
       \<le> reportFailed rs"
proof -
  have "length (filter (\<lambda>r. \<not> exists r \<and> count r = 0) xs) \<le> length (filter (\<lambda>r. \<not> exists r) xs)"
    for xs :: "selectorTestResult list"
    by (induction xs) auto
  then show ?thesis
    by (auto simp: handleSelectorFailures_def failedSelectors_def reportFailed_def)
qed

text \<open>
  Four probes failed in \<open>monitorRun\<close>, one of them with a count of seven: nothing is
  suggested.
\<close>

theorem four_failed_probes_no_suggestion:
  "reportFailed monitorRun = 4
   \<and> handleSelectorFailures monitorRun None = []
   \<and> handleSelectorFailures monitorRun (Some ''true'') = []"
  by code_simp

theorem suggestion_is_a_log_line_witness:
  "reportFailed fourPlainFailures = 4
   \<and> handleSelectorFailures fourPlainFailures None = [WarnSuggestingAutoMining 4]
   \<and> WarnSuggestingAutoMining 4 \<in> set (handleSelectorFailures fourPlainFailures None)
   \<and> InfoTriggeringMiner \<notin> set (handleSelectorFailures fourPlainFailures None)"
proof -
  have f: "reportFailed fourPlainFailures = 4" by code_simp
  have h: "handleSelectorFailures fourPlainFailures None = [WarnSuggestingAutoMining 4]" by code_simp
  have n: "length (filter (\<lambda>r. \<not> exists r \<and> count r = 0) (concat (map results fourPlainFailures))) = 4"
    by (simp add: fourPlainFailures_def)
  show ?thesis
    using suggestion_is_a_log_line [of 4 fourPlainFailures None]
    by (simp add: f h n)
qed

subsection \<open>C10: the key count required before validation\<close>



end
